theory Spec2Isabelle
  imports Complex_Main "HOL-Library.Multiset"
begin

section \<open>Data model (the mongoose schemas of server.js and models/Code.js)\<close>

text \<open>
  An ObjectId is modelled by its string form, which is what the handlers compare
  (\<open>snippet.userId.toString() === req.user._id.toString()\<close>). A date is the
  number of milliseconds that \<open>Date.now()\<close> returns. A collection is the list of its
  documents in natural (insertion) order.
\<close>

type_synonym oid = string
type_synonym date = nat

record user =
  user_id :: oid
  user_email :: string
  user_password :: string
  user_createdAt :: date

record code_snippet =
  cs_id :: oid
  cs_code :: string
  cs_language :: string
  cs_userId :: oid
  cs_createdAt :: date

record feedback =
  fb_id :: oid
  fb_codeSnippetId :: oid
  fb_reviewerId :: oid
  fb_feedbackText :: string
  fb_createdAt :: date

text \<open>models/Code.js: the embedded feedback sub-document and the \<open>Code\<close> document.
  Its \<open>code\<close> field is a plain \<open>String\<close>, not required, so it may be absent.\<close>

record embedded_feedback =
  ef_feedbackText :: "string option"
  ef_reviewerId :: "oid option"

record code_doc =
  cd_id :: oid
  cd_user :: oid
  cd_code :: "string option"
  cd_createdAt :: date
  cd_feedbacks :: "embedded_feedback list"

record db =
  users :: "user list"
  codesnippets :: "code_snippet list"
  feedbacks :: "feedback list"
  codes :: "code_doc list"

definition empty_db :: db where
  "empty_db = \<lparr>users = [], codesnippets = [], feedbacks = [], codes = []\<rparr>"

section \<open>Requests and responses\<close>

text \<open>
  A response is \<open>res.status(n).json({message: m})\<close>, \<open>res.status(n).json({error: m})\<close>
  or \<open>res.status(n).json(payload)\<close>; \<open>res.json(payload)\<close> has status 200.
\<close>

datatype 'a reply = Message nat string | Error nat string | Json nat 'a

fun status :: "'a reply \<Rightarrow> nat" where
  "status (Message n _) = n"
| "status (Error n _) = n"
| "status (Json n _) = n"

text \<open>The error kinds of the specification, read off the response.\<close>

datatype error_kind =
  ValidationError | Unauthorized | UnknownIdentity | Forbidden | NotFound | Conflict
  | RepositoryFailure

definition error_kind :: "'a reply \<Rightarrow> error_kind option" where
  "error_kind r =
     (if status r = 400 then Some ValidationError
      else if status r = 401 then
        (case r of Message _ m \<Rightarrow>
             if m = ''User not found'' then Some UnknownIdentity else Some Unauthorized
         | _ \<Rightarrow> Some Unauthorized)
      else if status r = 403 then Some Forbidden
      else if status r = 404 then Some NotFound
      else if status r = 409 then Some Conflict
      else if status r = 500 then Some RepositoryFailure
      else None)"

text \<open>
  A field of a JSON request body is absent or a string; a snippet id sent in a body is
  the string form of an ObjectId. \<open>falsy\<close> is JavaScript's \<open>!x\<close> on such a field: true
  when the field is absent or the empty string.
\<close>

definition falsy :: "string option \<Rightarrow> bool" where
  "falsy x = (case x of None \<Rightarrow> True | Some s \<Rightarrow> s = [])"

record credentials_body =
  b_email :: "string option"
  b_password :: "string option"

record code_body =
  b_code :: "string option"
  b_language :: "string option"

record feedback_body =
  b_codeSnippetId :: "string option"
  b_feedbackText :: "string option"

section \<open>Collaborators: the token library, the password hash, the repository\<close>

text \<open>
  Modelled from the spec: the token of the library \<open>jsonwebtoken\<close>, which is not in the
  sources. A token is a signed, self-contained credential carrying the subject, the
  instant of issuance and the instant of expiry; \<open>Signed k i iat ex\<close> is signed with the
  key \<open>k\<close>. A text that cannot be parsed as a token is \<open>Unparseable\<close>. The clock of a
  token counts whole seconds.
\<close>

datatype token = Unparseable | Signed string oid nat nat

datatype jwt_error = TokenExpiredError | JsonWebTokenError

text \<open>
  Modelled from the spec: \<open>jwt.sign({id}, secret, {expiresIn})\<close>, not in the sources. It
  produces a credential bound to the identity, with an absolute expiry \<open>expiresIn\<close>
  from issuance; it touches no store.
\<close>

definition jwt_sign :: "oid \<Rightarrow> string \<Rightarrow> nat \<Rightarrow> nat \<Rightarrow> token" where
  "jwt_sign ident secret expiresIn clock = Signed secret ident clock (clock + expiresIn)"

text \<open>
  Modelled from the spec: \<open>jwt.verify(token, secret)\<close>, not in the sources. It fails
  (\<open>JsonWebTokenError\<close>) when the credential cannot be parsed or its signature does not
  validate under the secret, fails (\<open>TokenExpiredError\<close>) when the current time is at or
  past the encoded expiry, and returns the encoded identity otherwise.
\<close>

fun jwt_verify :: "token \<Rightarrow> string \<Rightarrow> nat \<Rightarrow> jwt_error + oid" where
  "jwt_verify Unparseable secret clock = Inl JsonWebTokenError"
| "jwt_verify (Signed k ident iat ex) secret clock =
     (if k \<noteq> secret then Inl JsonWebTokenError
      else if ex \<le> clock then Inl TokenExpiredError
      else Inr ident)"

fun token_exp :: "token \<Rightarrow> nat option" where
  "token_exp Unparseable = None"
| "token_exp (Signed k ident iat ex) = Some ex"

fun token_iat :: "token \<Rightarrow> nat option" where
  "token_iat Unparseable = None"
| "token_iat (Signed k ident iat ex) = Some iat"

text \<open>The handlers' \<open>expiresIn: '1h'\<close>, in seconds.\<close>

definition one_hour :: nat where
  "one_hour = 3600"

text \<open>Modelled from the spec: the clock that the token library reads, not in the
  sources: the whole seconds of \<open>Date.now()\<close>.\<close>

definition clock_of :: "date \<Rightarrow> nat" where
  "clock_of now = now div 1000"

text \<open>
  The process environment and the libraries whose code is not in the sources:
  \<open>process.env.JWT_SECRET\<close>; \<open>bcrypt.hash(password, 12)\<close> and
  \<open>bcrypt.compare(password, hash)\<close>, both opaque; and the cast that mongoose applies
  to an id it is given as a string: \<open>castObjectId x\<close> is the ObjectId that the string
  \<open>x\<close> denotes, or nothing when \<open>x\<close> is not the string form of an ObjectId, in which
  case the query throws a \<open>CastError\<close>.
\<close>

record deps =
  JWT_SECRET :: string
  bcrypt_hash :: "string \<Rightarrow> string"
  bcrypt_compare :: "string \<Rightarrow> string \<Rightarrow> bool"
  castObjectId :: "string \<Rightarrow> oid option"

datatype mongoose_error = CastError

text \<open>
  The cast used in the examples: a string of 24 hexadecimal digits denotes the ObjectId
  with these digits, read without regard to case; the other strings of the examples (all
  shorter than 12 characters) denote none.
\<close>

definition is_hex_digit :: "char \<Rightarrow> bool" where
  "is_hex_digit c \<longleftrightarrow> c \<in> set ''0123456789abcdefABCDEF''"

definition lower_hex :: "char \<Rightarrow> char" where
  "lower_hex c =
     (if c = CHR ''A'' then CHR ''a'' else if c = CHR ''B'' then CHR ''b''
      else if c = CHR ''C'' then CHR ''c'' else if c = CHR ''D'' then CHR ''d''
      else if c = CHR ''E'' then CHR ''e'' else if c = CHR ''F'' then CHR ''f'' else c)"

definition hex24_ObjectId :: "string \<Rightarrow> oid option" where
  "hex24_ObjectId x =
     (if length x = 24 \<and> list_all is_hex_digit x then Some (map lower_hex x) else None)"

text \<open>The \<open>Authorization\<close> header: absent, not starting with \<open>'Bearer '\<close>, or a bearer
  credential (the text after the first space).\<close>

datatype auth_header = NoHeader | NotBearer string | Bearer token

text \<open>
  Repository operations. \<open>findOne\<close> and \<open>findById\<close> return the first matching document
  or nothing. \<open>CodeSnippet.findById\<close> is given the id as the string of the request body:
  it throws when the string denotes no ObjectId, and looks up the ObjectId denoted
  otherwise. An insert is refused when the \<open>_id\<close> is already in the collection (the
  unique index every collection has on \<open>_id\<close>), and for users also when the email is
  (the schema's \<open>unique: true\<close>); the handler's \<open>catch\<close> turns the refusal into a 500.
\<close>

definition User_findOne :: "string \<Rightarrow> db \<Rightarrow> user option" where
  "User_findOne e d = find (\<lambda>u. user_email u = e) (users d)"

definition User_findById :: "oid \<Rightarrow> db \<Rightarrow> user option" where
  "User_findById i d = find (\<lambda>u. user_id u = i) (users d)"

definition CodeSnippet_findById ::
  "deps \<Rightarrow> string \<Rightarrow> db \<Rightarrow> mongoose_error + code_snippet option" where
  "CodeSnippet_findById dp x d =
     (case castObjectId dp x of
        None \<Rightarrow> Inl CastError
      | Some i \<Rightarrow> Inr (find (\<lambda>s. cs_id s = i) (codesnippets d)))"

definition User_create :: "user \<Rightarrow> db \<Rightarrow> db option" where
  "User_create u d =
     (if user_id u \<in> set (map user_id (users d)) \<or> user_email u \<in> set (map user_email (users d))
      then None else Some (d\<lparr>users := users d @ [u]\<rparr>))"

definition CodeSnippet_create :: "code_snippet \<Rightarrow> db \<Rightarrow> db option" where
  "CodeSnippet_create s d =
     (if cs_id s \<in> set (map cs_id (codesnippets d)) then None
      else Some (d\<lparr>codesnippets := codesnippets d @ [s]\<rparr>))"

definition Feedback_create :: "feedback \<Rightarrow> db \<Rightarrow> db option" where
  "Feedback_create f d =
     (if fb_id f \<in> set (map fb_id (feedbacks d)) then None
      else Some (d\<lparr>feedbacks := feedbacks d @ [f]\<rparr>))"

definition Code_save :: "code_doc \<Rightarrow> db \<Rightarrow> db option" where
  "Code_save c d =
     (if cd_id c \<in> set (map cd_id (codes d)) then None
      else Some (d\<lparr>codes := codes d @ [c]\<rparr>))"

section \<open>Authentication (server.js)\<close>

text \<open>The value of a body field once it is known to be truthy (the empty string otherwise).\<close>

definition str :: "string option \<Rightarrow> string" where
  "str x = (case x of None \<Rightarrow> [] | Some s \<Rightarrow> s)"

text \<open>What a response shows of a user: \<open>{id, email, createdAt}\<close>, which is also the
  document that \<open>select('-password')\<close> leaves in \<open>req.user\<close>.\<close>

record user_public =
  pu_id :: oid
  pu_email :: string
  pu_createdAt :: date

definition public :: "user \<Rightarrow> user_public" where
  "public u = \<lparr>pu_id = user_id u, pu_email = user_email u, pu_createdAt = user_createdAt u\<rparr>"

text \<open>The \<open>authenticate\<close> middleware: \<open>Inr\<close> is \<open>req.user\<close> followed by \<open>next()\<close>.\<close>

definition authenticate :: "deps \<Rightarrow> date \<Rightarrow> auth_header \<Rightarrow> db \<Rightarrow> 'a reply + user_public" where
  "authenticate dp now authHeader d =
     (case authHeader of
        NoHeader \<Rightarrow> Inl (Message 401 ''No token provided or malformed token'')
      | NotBearer _ \<Rightarrow> Inl (Message 401 ''No token provided or malformed token'')
      | Bearer tok \<Rightarrow>
          (case jwt_verify tok (JWT_SECRET dp) (clock_of now) of
             Inl TokenExpiredError \<Rightarrow> Inl (Message 401 ''Token expired'')
           | Inl JsonWebTokenError \<Rightarrow> Inl (Message 401 ''Invalid token'')
           | Inr decoded_id \<Rightarrow>
               (case User_findById decoded_id d of
                  None \<Rightarrow> Inl (Message 401 ''User not found'')
                | Some u \<Rightarrow> Inr (public u))))"

text \<open>\<open>POST /api/auth/register\<close>\<close>

definition api_auth_register ::
  "deps \<Rightarrow> date \<Rightarrow> oid \<Rightarrow> credentials_body \<Rightarrow> db \<Rightarrow> (token \<times> user_public) reply \<times> db" where
  "api_auth_register dp now fresh body d =
     (if falsy (b_email body) \<or> falsy (b_password body)
      then (Message 400 ''Email and password are required'', d)
      else
        (case User_findOne (str (b_email body)) d of
           Some existingUser \<Rightarrow> (Message 409 ''Email already registered'', d)
         | None \<Rightarrow>
             (let hashedPassword = bcrypt_hash dp (str (b_password body));
                  u = \<lparr>user_id = fresh, user_email = str (b_email body),
                       user_password = hashedPassword, user_createdAt = now\<rparr>
              in case User_create u d of
                   None \<Rightarrow> (Message 500 ''Registration failed'', d)
                 | Some d' \<Rightarrow>
                     (Json 201 (jwt_sign (user_id u) (JWT_SECRET dp) one_hour (clock_of now),
                                public u), d'))))"

text \<open>\<open>POST /api/auth/login\<close>\<close>

definition api_auth_login ::
  "deps \<Rightarrow> date \<Rightarrow> credentials_body \<Rightarrow> db \<Rightarrow> (token \<times> user_public) reply" where
  "api_auth_login dp now body d =
     (if falsy (b_email body) \<or> falsy (b_password body)
      then Message 400 ''Email and password are required''
      else
        (case User_findOne (str (b_email body)) d of
           None \<Rightarrow> Message 401 ''Invalid credentials''
         | Some u \<Rightarrow>
             (let isMatch = bcrypt_compare dp (str (b_password body)) (user_password u)
              in if \<not> isMatch then Message 401 ''Invalid credentials''
                 else Json 200 (jwt_sign (user_id u) (JWT_SECRET dp) one_hour (clock_of now),
                                public u))))"

section \<open>Snippets and feedback (server.js)\<close>

text \<open>\<open>POST /api/code\<close>, after \<open>authenticate\<close>\<close>

definition api_code_handler ::
  "user_public \<Rightarrow> date \<Rightarrow> oid \<Rightarrow> code_body \<Rightarrow> db \<Rightarrow> code_snippet reply \<times> db" where
  "api_code_handler u now fresh body d =
     (if falsy (b_code body) then (Message 400 ''Code is required'', d)
      else
        (let snippet = \<lparr>cs_id = fresh, cs_code = str (b_code body),
                        cs_language = (if falsy (b_language body) then ''javascript''
                                       else str (b_language body)),
                        cs_userId = pu_id u, cs_createdAt = now\<rparr>
         in case CodeSnippet_create snippet d of
              None \<Rightarrow> (Message 500 ''Failed to submit code'', d)
            | Some d' \<Rightarrow> (Json 201 snippet, d')))"

text \<open>
  \<open>GET /api/code/random\<close>, after \<open>authenticate\<close>. \<open>rnd\<close> is the value of
  \<open>Math.random()\<close>. \<open>findOne(filter).skip(random)\<close> is the first document left after
  dropping \<open>random\<close> matching documents, or \<open>null\<close>.
\<close>

definition api_code_random_handler :: "real \<Rightarrow> user_public \<Rightarrow> db \<Rightarrow> code_snippet option reply" where
  "api_code_random_handler rnd u d =
     (let matching = filter (\<lambda>s. cs_userId s \<noteq> pu_id u) (codesnippets d);
          count = length matching
      in if count = 0 then Message 404 ''No code available for review''
         else
           (let random = nat \<lfloor>rnd * real count\<rfloor>;
                snippet = (case drop random matching of [] \<Rightarrow> None | s # _ \<Rightarrow> Some s)
            in Json 200 snippet))"

text \<open>\<open>GET /api/code/my-submissions\<close>, after \<open>authenticate\<close>. \<open>populate('reviewerId',
  'email')\<close> replaces the reviewer's id by \<open>{_id, email}\<close>, or by \<open>null\<close> when no such
  user is stored.\<close>

record populated_feedback =
  pf_id :: oid
  pf_codeSnippetId :: oid
  pf_reviewerId :: "(oid \<times> string) option"
  pf_feedbackText :: string
  pf_createdAt :: date

definition populate :: "db \<Rightarrow> feedback \<Rightarrow> populated_feedback" where
  "populate d f =
     \<lparr>pf_id = fb_id f, pf_codeSnippetId = fb_codeSnippetId f,
      pf_reviewerId = map_option (\<lambda>u. (user_id u, user_email u)) (User_findById (fb_reviewerId f) d),
      pf_feedbackText = fb_feedbackText f, pf_createdAt = fb_createdAt f\<rparr>"

definition api_code_my_submissions_handler ::
  "user_public \<Rightarrow> db \<Rightarrow> (code_snippet \<times> populated_feedback list) list reply" where
  "api_code_my_submissions_handler u d =
     (let snippets = filter (\<lambda>s. cs_userId s = pu_id u) (codesnippets d);
          snippetIds = map cs_id snippets;
          fbs = map (populate d) (filter (\<lambda>f. fb_codeSnippetId f \<in> set snippetIds) (feedbacks d));
          snippetsWithFeedback =
            map (\<lambda>snippet. (snippet, filter (\<lambda>f. pf_codeSnippetId f = cs_id snippet) fbs)) snippets
      in Json 200 snippetsWithFeedback)"

text \<open>\<open>POST /api/feedback\<close>, after \<open>authenticate\<close>. A \<open>CastError\<close> thrown by
  \<open>findById\<close> or by \<open>Feedback.create\<close>, which casts the same string for the field
  \<open>codeSnippetId\<close>, is caught and answered with a 500.\<close>

definition api_feedback_handler ::
  "deps \<Rightarrow> user_public \<Rightarrow> date \<Rightarrow> oid \<Rightarrow> feedback_body \<Rightarrow> db \<Rightarrow> feedback reply \<times> db" where
  "api_feedback_handler dp u now fresh body d =
     (if falsy (b_codeSnippetId body) \<or> falsy (b_feedbackText body)
      then (Message 400 ''Code snippet ID and feedback text are required'', d)
      else
        (case CodeSnippet_findById dp (str (b_codeSnippetId body)) d of
           Inl CastError \<Rightarrow> (Message 500 ''Failed to submit feedback'', d)
         | Inr None \<Rightarrow> (Message 404 ''Code snippet not found'', d)
         | Inr (Some snippet) \<Rightarrow>
             if cs_userId snippet = pu_id u
             then (Message 403 ''You cannot review your own code'', d)
             else
               (case castObjectId dp (str (b_codeSnippetId body)) of
                  None \<Rightarrow> (Message 500 ''Failed to submit feedback'', d)
                | Some i \<Rightarrow>
                    (let fb = \<lparr>fb_id = fresh, fb_codeSnippetId = i,
                               fb_reviewerId = pu_id u,
                               fb_feedbackText = str (b_feedbackText body),
                               fb_createdAt = now\<rparr>
                     in case Feedback_create fb d of
                          None \<Rightarrow> (Message 500 ''Failed to submit feedback'', d)
                        | Some d' \<Rightarrow> (Json 201 fb, d')))))"

text \<open>The protected routes: the middleware, then the handler.\<close>

definition api_code ::
  "deps \<Rightarrow> date \<Rightarrow> oid \<Rightarrow> auth_header \<Rightarrow> code_body \<Rightarrow> db \<Rightarrow> code_snippet reply \<times> db" where
  "api_code dp now fresh h body d =
     (case authenticate dp now h d of
        Inl r \<Rightarrow> (r, d)
      | Inr u \<Rightarrow> api_code_handler u now fresh body d)"

definition api_code_random ::
  "deps \<Rightarrow> date \<Rightarrow> real \<Rightarrow> auth_header \<Rightarrow> db \<Rightarrow> code_snippet option reply" where
  "api_code_random dp now rnd h d =
     (case authenticate dp now h d of
        Inl r \<Rightarrow> r
      | Inr u \<Rightarrow> api_code_random_handler rnd u d)"

definition api_code_my_submissions ::
  "deps \<Rightarrow> date \<Rightarrow> auth_header \<Rightarrow> db \<Rightarrow> (code_snippet \<times> populated_feedback list) list reply" where
  "api_code_my_submissions dp now h d =
     (case authenticate dp now h d of
        Inl r \<Rightarrow> r
      | Inr u \<Rightarrow> api_code_my_submissions_handler u d)"

definition api_feedback ::
  "deps \<Rightarrow> date \<Rightarrow> oid \<Rightarrow> auth_header \<Rightarrow> feedback_body \<Rightarrow> db \<Rightarrow> feedback reply \<times> db" where
  "api_feedback dp now fresh h body d =
     (case authenticate dp now h d of
        Inl r \<Rightarrow> (r, d)
      | Inr u \<Rightarrow> api_feedback_handler dp u now fresh body d)"

section \<open>The code routes router (over models/Code.js)\<close>

text \<open>
  The router's \<open>authMiddleware\<close> is not in the sources; the handlers take the
  \<open>req.user.id\<close> it leaves.
\<close>

text \<open>\<open>POST /\<close>\<close>

definition router_post :: "oid \<Rightarrow> date \<Rightarrow> oid \<Rightarrow> code_body \<Rightarrow> db \<Rightarrow> unit reply \<times> db" where
  "router_post uid now fresh body d =
     (let newCode = \<lparr>cd_id = fresh, cd_user = uid, cd_code = b_code body, cd_createdAt = now,
                     cd_feedbacks = []\<rparr>
      in case Code_save newCode d of
           None \<Rightarrow> (Error 500 ''Server error'', d)
         | Some d' \<Rightarrow> (Message 201 ''Code submitted'', d'))"

text \<open>\<open>GET /random\<close>: the payload is \<open>{code: null}\<close> or \<open>{code, _id}\<close>. Reading a field
  of \<open>snippets[i]\<close> beyond the array throws, which the \<open>catch\<close> answers with a 500.\<close>

datatype random_payload = NoCode | Picked "string option" oid

definition router_random :: "real \<Rightarrow> oid \<Rightarrow> db \<Rightarrow> random_payload reply" where
  "router_random rnd uid d =
     (let snippets = filter (\<lambda>c. cd_user c \<noteq> uid) (codes d)
      in if length snippets = 0 then Json 200 NoCode
         else
           (let i = nat \<lfloor>rnd * real (length snippets)\<rfloor>
            in if i < length snippets
               then (let random = snippets ! i in Json 200 (Picked (cd_code random) (cd_id random)))
               else Error 500 ''Server error''))"

text \<open>\<open>GET /mine\<close>: \<open>sort({createdAt: -1})\<close> is a sort by descending creation date
  (documents with equal dates are kept in stored order here).\<close>

definition router_mine :: "oid \<Rightarrow> db \<Rightarrow> code_doc list reply" where
  "router_mine uid d =
     Json 200 (sort_key (\<lambda>c. - int (cd_createdAt c)) (filter (\<lambda>c. cd_user c = uid) (codes d)))"

section \<open>The system as a whole\<close>

text \<open>
  A request together with what the environment supplies while it is handled: the clock,
  the ObjectId generated for a new document, the random draw. The health check and the
  protected test route touch no store and are left out.
\<close>

datatype event =
    Register date oid credentials_body
  | Login date credentials_body
  | PostCode date oid auth_header code_body
  | GetRandom date real auth_header
  | GetMySubmissions date auth_header
  | PostFeedback date oid auth_header feedback_body
  | RouterPost oid date oid code_body
  | RouterRandom real oid
  | RouterMine oid

fun apply_event :: "deps \<Rightarrow> db \<Rightarrow> event \<Rightarrow> db" where
  "apply_event dp d (Register now fresh body) = snd (api_auth_register dp now fresh body d)"
| "apply_event dp d (Login now body) = d"
| "apply_event dp d (PostCode now fresh h body) = snd (api_code dp now fresh h body d)"
| "apply_event dp d (GetRandom now rnd h) = d"
| "apply_event dp d (GetMySubmissions now h) = d"
| "apply_event dp d (PostFeedback now fresh h body) = snd (api_feedback dp now fresh h body d)"
| "apply_event dp d (RouterPost uid now fresh body) = snd (router_post uid now fresh body d)"
| "apply_event dp d (RouterRandom rnd uid) = d"
| "apply_event dp d (RouterMine uid) = d"

definition run :: "deps \<Rightarrow> event list \<Rightarrow> db" where
  "run dp evs = foldl (apply_event dp) empty_db evs"

fun is_PostFeedback :: "event \<Rightarrow> bool" where
  "is_PostFeedback (PostFeedback now fresh h body) = True"
| "is_PostFeedback _ = False"

section \<open>The invariant of the stores\<close>

text \<open>Snippet ids are unique, every stored feedback refers to a stored snippet that
  its reviewer does not own, and no \<open>Code\<close> document embeds a feedback.\<close>

definition wf_db :: "db \<Rightarrow> bool" where
  "wf_db d \<longleftrightarrow>
     distinct (map cs_id (codesnippets d)) \<and>
     (\<forall>f \<in> set (feedbacks d). \<exists>s \<in> set (codesnippets d).
        cs_id s = fb_codeSnippetId f \<and> cs_userId s \<noteq> fb_reviewerId f) \<and>
     (\<forall>c \<in> set (codes d). cd_feedbacks c = [])"

section \<open>Example data\<close>

text \<open>
  The scenario of the specification: Alice and Bob register, Alice submits
  \<open>print(1)\<close>, Bob reviews it. The other stores add snippets of both users.
\<close>

definition dp0 :: deps where
  "dp0 = \<lparr>JWT_SECRET = ''secret'', bcrypt_hash = (\<lambda>p. ''#'' @ p),
          bcrypt_compare = (\<lambda>p h. h = ''#'' @ p), castObjectId = hex24_ObjectId\<rparr>"

definition sid1 :: oid where
  "sid1 = ''64a1f0000000000000000001''"

definition alice :: user where
  "alice = \<lparr>user_id = ''a'', user_email = ''a@x'', user_password = ''#pa'', user_createdAt = 1000\<rparr>"

definition bob :: user where
  "bob = \<lparr>user_id = ''b'', user_email = ''b@x'', user_password = ''#pb'', user_createdAt = 2000\<rparr>"

definition snippet1 :: code_snippet where
  "snippet1 = \<lparr>cs_id = sid1, cs_code = ''print(1)'', cs_language = ''javascript'',
               cs_userId = ''a'', cs_createdAt = 3000\<rparr>"

definition snippet2 :: code_snippet where
  "snippet2 = \<lparr>cs_id = ''s2'', cs_code = ''x = 2'', cs_language = ''python'',
               cs_userId = ''b'', cs_createdAt = 5000\<rparr>"

definition snippet3 :: code_snippet where
  "snippet3 = \<lparr>cs_id = ''s3'', cs_code = ''print(3)'', cs_language = ''javascript'',
               cs_userId = ''a'', cs_createdAt = 6000\<rparr>"

definition feedback1 :: feedback where
  "feedback1 = \<lparr>fb_id = ''f1'', fb_codeSnippetId = sid1, fb_reviewerId = ''b'',
                fb_feedbackText = ''looks fine'', fb_createdAt = 4000\<rparr>"

definition code_early :: code_doc where
  "code_early = \<lparr>cd_id = ''c1'', cd_user = ''a'', cd_code = Some ''print(1)'', cd_createdAt = 1000,
                 cd_feedbacks = []\<rparr>"

definition code_late :: code_doc where
  "code_late = \<lparr>cd_id = ''c2'', cd_user = ''a'', cd_code = Some ''print(2)'', cd_createdAt = 2000,
                cd_feedbacks = []\<rparr>"

definition code_other :: code_doc where
  "code_other = \<lparr>cd_id = ''c3'', cd_user = ''b'', cd_code = None, cd_createdAt = 3000,
                 cd_feedbacks = []\<rparr>"

definition scenario :: "event list" where
  "scenario =
     [Register 1000 ''a'' \<lparr>b_email = Some ''a@x'', b_password = Some ''pa''\<rparr>,
      Register 2000 ''b'' \<lparr>b_email = Some ''b@x'', b_password = Some ''pb''\<rparr>,
      PostCode 3000 sid1 (Bearer (Signed ''secret'' ''a'' 1 3601))
        \<lparr>b_code = Some ''print(1)'', b_language = None\<rparr>,
      PostFeedback 4000 ''f1'' (Bearer (Signed ''secret'' ''b'' 2 3602))
        \<lparr>b_codeSnippetId = Some ''64A1F0000000000000000001'',
         b_feedbackText = Some ''looks fine''\<rparr>]"

definition db1 :: db where
  "db1 = \<lparr>users = [alice, bob], codesnippets = [snippet1], feedbacks = [feedback1], codes = []\<rparr>"

definition db2 :: db where
  "db2 = \<lparr>users = [alice, bob], codesnippets = [snippet1, snippet2, snippet3],
          feedbacks = [feedback1], codes = [code_early, code_late, code_other]\<rparr>"

definition db_codes :: db where
  "db_codes = \<lparr>users = [], codesnippets = [], feedbacks = [], codes = [code_early, code_late]\<rparr>"

section \<open>Evaluation of the examples\<close>

lemmas handler_defs =
  api_auth_register_def api_auth_login_def api_code_def api_code_handler_def
  api_feedback_def api_feedback_handler_def authenticate_def
  User_findOne_def User_findById_def CodeSnippet_findById_def
  User_create_def CodeSnippet_create_def Feedback_create_def Code_save_def router_post_def
  falsy_def str_def public_def clock_of_def one_hour_def jwt_sign_def empty_db_def Let_def
  hex24_ObjectId_def is_hex_digit_def lower_hex_def

lemmas example_defs =
  dp0_def sid1_def alice_def bob_def snippet1_def snippet2_def snippet3_def feedback1_def
  code_early_def code_late_def code_other_def db1_def db2_def db_codes_def scenario_def

lemma run_scenario: "run dp0 scenario = db1"
  by (simp add: run_def example_defs handler_defs)

lemma find_SomeD:
  "find P xs = Some x \<Longrightarrow> x \<in> set xs \<and> P x"
  by (auto simp: find_Some_iff)

section \<open>Review assignment\<close>

text \<open>The index \<open>Math.floor(Math.random() * count)\<close> lies below \<open>count\<close>: the draw is
  taken as a real number of the interval from 0 (included) to 1 (excluded).\<close>

lemma floor_draw_less:
  assumes "0 \<le> rnd" "rnd < 1" "0 < n"
  shows "nat \<lfloor>rnd * real n\<rfloor> < n"
proof -
  have "rnd * real n < real n" using assms by simp
  then have "\<lfloor>rnd * real n\<rfloor> < int n" by (simp add: floor_less_iff)
  then show ?thesis using assms by linarith
qed

lemma drop_first_in_set:
  "drop i xs = y # ys \<Longrightarrow> y \<in> set xs"
  by (metis in_set_dropD list.set_intros(1))

lemma random_handler_not_own:
  "api_code_random_handler rnd u d = Json 200 (Some s) \<Longrightarrow>
     s \<in> set (codesnippets d) \<and> cs_userId s \<noteq> pu_id u"
  by (auto simp: api_code_random_handler_def Let_def split: if_splits list.splits
      dest!: drop_first_in_set)

lemma random_handler_picks:
  assumes "0 \<le> rnd" and "rnd < 1"
    and ex: "\<exists>s \<in> set (codesnippets d). cs_userId s \<noteq> pu_id u"
  shows "\<exists>s. api_code_random_handler rnd u d = Json 200 (Some s)
             \<and> s \<in> set (codesnippets d) \<and> cs_userId s \<noteq> pu_id u"
proof -
  define matching where "matching = filter (\<lambda>s. cs_userId s \<noteq> pu_id u) (codesnippets d)"
  from ex have ne: "0 < length matching"
    by (auto simp: matching_def filter_empty_conv)
  let ?i = "nat \<lfloor>rnd * real (length matching)\<rfloor>"
  have "?i < length matching"
    using assms(1,2) ne by (rule floor_draw_less)
  then obtain s rest where dr: "drop ?i matching = s # rest"
    by (cases "drop ?i matching") auto
  have res: "api_code_random_handler rnd u d = Json 200 (Some s)"
    using ne dr by (simp add: api_code_random_handler_def Let_def matching_def)
  with random_handler_not_own[OF res] show ?thesis by blast
qed

lemma router_random_picks:
  assumes "0 \<le> rnd" and "rnd < 1"
    and ex: "\<exists>c \<in> set (codes d). cd_user c \<noteq> uid"
  shows "\<exists>c. router_random rnd uid d = Json 200 (Picked (cd_code c) (cd_id c))
             \<and> c \<in> set (codes d) \<and> cd_user c \<noteq> uid"
proof -
  define snippets where "snippets = filter (\<lambda>c. cd_user c \<noteq> uid) (codes d)"
  from ex have ne: "0 < length snippets"
    by (auto simp: snippets_def filter_empty_conv)
  let ?i = "nat \<lfloor>rnd * real (length snippets)\<rfloor>"
  have lt: "?i < length snippets"
    using assms(1,2) ne by (rule floor_draw_less)
  then have "snippets ! ?i \<in> set snippets" by simp
  then have own: "snippets ! ?i \<in> set (codes d) \<and> cd_user (snippets ! ?i) \<noteq> uid"
    by (simp add: snippets_def)
  have "router_random rnd uid d =
          Json 200 (Picked (cd_code (snippets ! ?i)) (cd_id (snippets ! ?i)))"
    using ne lt by (simp add: router_random_def Let_def snippets_def)
  with own show ?thesis by blast
qed

text \<open>
  C1. Whenever some stored snippet is not owned by the requester, the random pick
  returns a stored snippet that the requester does not own, for every draw of
  \<open>Math.random()\<close>: in \<open>GET /api/code/random\<close> of server.js, and in the router's
  \<open>GET /random\<close>, whose answer is the code and id of such a document. Moreover, whatever
  the number drawn, a snippet that server.js returns is never the requester's.
\<close>

theorem pickForReview_never_own:
  assumes "0 \<le> rnd" and "rnd < 1"
  shows "((\<exists>s \<in> set (codesnippets d). cs_userId s \<noteq> pu_id u) \<longrightarrow>
            (\<exists>s. api_code_random_handler rnd u d = Json 200 (Some s)
                 \<and> s \<in> set (codesnippets d) \<and> cs_userId s \<noteq> pu_id u))
       \<and> ((\<exists>c \<in> set (codes d). cd_user c \<noteq> uid) \<longrightarrow>
            (\<exists>c. router_random rnd uid d = Json 200 (Picked (cd_code c) (cd_id c))
                 \<and> c \<in> set (codes d) \<and> cd_user c \<noteq> uid))
       \<and> (\<forall>r s. api_code_random_handler r u d = Json 200 (Some s) \<longrightarrow> cs_userId s \<noteq> pu_id u)"
  using random_handler_picks[OF assms] router_random_picks[OF assms] random_handler_not_own
  by blast

theorem pickForReview_never_own_witness:
  "(0::real) \<le> 1 / 2 \<and> (1::real) / 2 < 1
   \<and> snippet3 \<in> set (codesnippets db2) \<and> cs_userId snippet3 \<noteq> pu_id (public bob)
   \<and> api_code_random_handler (1 / 2) (public bob) db2 = Json 200 (Some snippet3)
   \<and> code_late \<in> set (codes db2) \<and> cd_user code_late \<noteq> ''b''
   \<and> router_random (1 / 2) ''b'' db2 = Json 200 (Picked (cd_code code_late) (cd_id code_late))"
  using pickForReview_never_own
    [where rnd = "1 / 2" and d = db2 and u = "public bob" and uid = "''b''"]
  by (simp add: example_defs public_def api_code_random_handler_def router_random_def Let_def)

text \<open>
  C4, as amended. When no stored snippet is owned by someone else,
  \<open>GET /api/code/random\<close> of server.js answers 404 \<open>No code available for review\<close>,
  whatever the draw: the kind is NotFound, not a repository failure. The router's
  \<open>GET /random\<close> answers, whatever the draw, a 200 with \<open>{code: null}\<close>, which is no
  error of any kind, NotFound included.
\<close>

theorem pickForReview_empty_NotFound:
  "((\<forall>s \<in> set (codesnippets d). cs_userId s = pu_id u) \<longrightarrow>
       api_code_random_handler rnd u d = Message 404 ''No code available for review''
     \<and> error_kind (api_code_random_handler rnd u d) = Some NotFound)
   \<and> ((\<forall>c \<in> set (codes d). cd_user c = uid) \<longrightarrow>
       router_random rnd uid d = Json 200 NoCode
     \<and> error_kind (router_random rnd uid d) = None)"
  by (auto simp: api_code_random_handler_def router_random_def Let_def error_kind_def
      filter_empty_conv)

theorem pickForReview_empty_NotFound_witness:
  "codesnippets db1 = [snippet1] \<and> cs_userId snippet1 = pu_id (public alice)
   \<and> api_code_random_handler (1 / 2) (public alice) db1 =
       Message 404 ''No code available for review''
   \<and> error_kind (api_code_random_handler (1 / 2) (public alice) db1) = Some NotFound
   \<and> codes db_codes = [code_early, code_late]
   \<and> cd_user code_early = ''a'' \<and> cd_user code_late = ''a''
   \<and> router_random (1 / 2) ''a'' db_codes = Json 200 NoCode"
  using pickForReview_empty_NotFound
      [where d = db1 and u = "public alice" and rnd = "1 / 2" and uid = "''a''"]
    pickForReview_empty_NotFound
      [where d = db_codes and u = "public alice" and rnd = "1 / 2" and uid = "''a''"]
  by (simp add: example_defs public_def error_kind_def)

text \<open>The claim as stated fails on the router's \<open>GET /random\<close>: with every document
  owned by the requester, the answer is a 200 and not NotFound.\<close>

theorem pickForReview_empty_NotFound_counterexample:
  "codes db_codes = [code_early, code_late]
   \<and> cd_user code_early = ''a'' \<and> cd_user code_late = ''a''
   \<and> router_random (1 / 2) ''a'' db_codes = Json 200 NoCode
   \<and> status (router_random (1 / 2) ''a'' db_codes) = 200
   \<and> error_kind (router_random (1 / 2) ''a'' db_codes) \<noteq> Some NotFound"
  by (simp add: example_defs router_random_def error_kind_def)

section \<open>Feedback submission and the ownership invariant\<close>

lemma register_keeps:
  "codesnippets (snd (api_auth_register dp now fresh body d)) = codesnippets d"
  "feedbacks (snd (api_auth_register dp now fresh body d)) = feedbacks d"
  "codes (snd (api_auth_register dp now fresh body d)) = codes d"
  by (auto simp: api_auth_register_def User_create_def Let_def split: option.splits)

lemma router_post_keeps:
  "codesnippets (snd (router_post uid now fresh body d)) = codesnippets d"
  "feedbacks (snd (router_post uid now fresh body d)) = feedbacks d"
  by (auto simp: router_post_def Code_save_def Let_def split: option.splits)

lemma router_post_embeds_nothing:
  "\<forall>c \<in> set (codes d). cd_feedbacks c = [] \<Longrightarrow>
     \<forall>c \<in> set (codes (snd (router_post uid now fresh body d))). cd_feedbacks c = []"
  by (auto simp: router_post_def Code_save_def Let_def split: option.splits)

lemma code_handler_feedbacks:
  "feedbacks (snd (api_code_handler u now fresh body d)) = feedbacks d"
  by (auto simp: api_code_handler_def CodeSnippet_create_def Let_def split: option.splits)

lemma api_code_feedbacks:
  "feedbacks (snd (api_code dp now fresh h body d)) = feedbacks d"
  by (simp add: api_code_def code_handler_feedbacks split: sum.splits)

lemma code_handler_wf:
  "wf_db d \<Longrightarrow> wf_db (snd (api_code_handler u now fresh body d))"
  by (auto simp: wf_db_def api_code_handler_def CodeSnippet_create_def Let_def)

lemma feedback_handler_wf:
  "wf_db d \<Longrightarrow> wf_db (snd (api_feedback_handler dp u now fresh body d))"
  by (auto simp: wf_db_def api_feedback_handler_def Feedback_create_def CodeSnippet_findById_def
      Let_def split: option.splits sum.splits mongoose_error.splits dest!: find_SomeD)

lemma apply_event_wf:
  assumes "wf_db d"
  shows "wf_db (apply_event dp d ev)"
proof (cases ev)
  case (Register now fresh body)
  with assms show ?thesis
    by (simp add: wf_db_def register_keeps)
next
  case (PostCode now fresh h body)
  with assms show ?thesis
    by (simp add: api_code_def code_handler_wf split: sum.splits)
next
  case (PostFeedback now fresh h body)
  with assms show ?thesis
    by (simp add: api_feedback_def feedback_handler_wf split: sum.splits)
next
  case (RouterPost uid now fresh body)
  from assms have "\<forall>c \<in> set (codes d). cd_feedbacks c = []"
    by (simp add: wf_db_def)
  then have "\<forall>c \<in> set (codes (snd (router_post uid now fresh body d))). cd_feedbacks c = []"
    by (rule router_post_embeds_nothing)
  with assms RouterPost show ?thesis
    by (simp add: wf_db_def router_post_keeps)
qed (use assms in simp_all)

lemma foldl_wf:
  "wf_db d \<Longrightarrow> wf_db (foldl (apply_event dp) d evs)"
  by (induction evs arbitrary: d) (simp_all add: apply_event_wf)

lemma run_wf: "wf_db (run dp evs)"
  unfolding run_def by (rule foldl_wf) (simp add: wf_db_def empty_db_def)

lemma other_events_keep_feedbacks:
  "\<not> is_PostFeedback ev \<Longrightarrow> feedbacks (apply_event dp d ev) = feedbacks d"
  by (cases ev) (simp_all add: register_keeps router_post_keeps api_code_feedbacks)

text \<open>
  C2. After every sequence of requests, started on empty stores, every stored feedback
  refers to a stored snippet, and the reviewer of the feedback is not the owner of the
  snippet with that id. No request other than \<open>POST /api/feedback\<close> changes the
  feedback store, and no \<open>Code\<close> document of the router ever embeds a feedback.
\<close>

theorem feedback_never_self_review:
  "(\<forall>f \<in> set (feedbacks (run dp evs)).
      (\<exists>s \<in> set (codesnippets (run dp evs)). cs_id s = fb_codeSnippetId f)
      \<and> (\<forall>s \<in> set (codesnippets (run dp evs)).
            cs_id s = fb_codeSnippetId f \<longrightarrow> fb_reviewerId f \<noteq> cs_userId s))
   \<and> (\<forall>d ev. \<not> is_PostFeedback ev \<longrightarrow> feedbacks (apply_event dp d ev) = feedbacks d)
   \<and> (\<forall>c \<in> set (codes (run dp evs)). cd_feedbacks c = [])"
proof (intro conjI ballI allI impI)
  fix f assume f: "f \<in> set (feedbacks (run dp evs))"
  from run_wf[of dp evs] f obtain s where s: "s \<in> set (codesnippets (run dp evs))"
    "cs_id s = fb_codeSnippetId f" "cs_userId s \<noteq> fb_reviewerId f"
    unfolding wf_db_def by blast
  from s show "\<exists>s \<in> set (codesnippets (run dp evs)). cs_id s = fb_codeSnippetId f" by blast
  fix s' assume s': "s' \<in> set (codesnippets (run dp evs))" "cs_id s' = fb_codeSnippetId f"
  from run_wf[of dp evs] have "distinct (map cs_id (codesnippets (run dp evs)))"
    unfolding wf_db_def by simp
  with s s' have "s' = s" by (metis distinct_map inj_on_def)
  with s show "fb_reviewerId f \<noteq> cs_userId s'" by auto
next
  fix d ev assume "\<not> is_PostFeedback ev"
  then show "feedbacks (apply_event dp d ev) = feedbacks d"
    by (rule other_events_keep_feedbacks)
next
  fix c assume "c \<in> set (codes (run dp evs))"
  with run_wf[of dp evs] show "cd_feedbacks c = []"
    unfolding wf_db_def by blast
qed

theorem feedback_never_self_review_witness:
  "feedbacks (run dp0 scenario) = [feedback1]
   \<and> codesnippets (run dp0 scenario) = [snippet1]
   \<and> cs_id snippet1 = fb_codeSnippetId feedback1
   \<and> fb_reviewerId feedback1 \<noteq> cs_userId snippet1
   \<and> is_PostFeedback (RouterPost ''a'' 1000 ''c1'' \<lparr>b_code = None, b_language = None\<rparr>) = False
   \<and> feedbacks (apply_event dp0 db1
         (RouterPost ''a'' 1000 ''c1'' \<lparr>b_code = None, b_language = None\<rparr>)) = feedbacks db1"
  using feedback_never_self_review [of dp0 scenario]
  by (simp add: run_scenario) (simp add: example_defs router_post_def Code_save_def)







section \<open>The submissions of a user, with their feedback\<close>

lemma pf_codeSnippetId_populate: "pf_codeSnippetId (populate d f) = fb_codeSnippetId f"
  by (simp add: populate_def)

lemma group_of_owned:
  assumes "x \<in> set ids"
  shows "filter (\<lambda>f. pf_codeSnippetId f = x)
           (map (populate d) (filter (\<lambda>f. fb_codeSnippetId f \<in> set ids) fs))
         = map (populate d) (filter (\<lambda>f. fb_codeSnippetId f = x) fs)"
proof -
  have "filter (\<lambda>f. fb_codeSnippetId f = x) (filter (\<lambda>f. fb_codeSnippetId f \<in> set ids) fs)
        = filter (\<lambda>f. fb_codeSnippetId f = x) fs"
    using assms by (auto intro: filter_cong)
  then show ?thesis
    by (simp add: filter_map o_def pf_codeSnippetId_populate)
qed

lemma count_list_filter_kept:
  "P x \<Longrightarrow> count_list (filter P xs) x = count_list xs x"
  by (induction xs) auto

lemma sorted_filter_map:
  "sorted (map f xs) \<Longrightarrow> sorted (map f (filter P xs))"
  by (induction xs) auto

text \<open>The response of \<open>GET /api/code/my-submissions\<close> in closed form: the owner's
  snippets in stored order, each with all the stored feedback on it, populated.\<close>

lemma my_submissions_eq:
  "api_code_my_submissions_handler u d =
     Json 200
       (map (\<lambda>s. (s, map (populate d) (filter (\<lambda>f. fb_codeSnippetId f = cs_id s) (feedbacks d))))
          (filter (\<lambda>s. cs_userId s = pu_id u) (codesnippets d)))"
proof -
  let ?owned = "filter (\<lambda>s. cs_userId s = pu_id u) (codesnippets d)"
  have "filter (\<lambda>f. pf_codeSnippetId f = cs_id s)
          (map (populate d)
             (filter (\<lambda>f. fb_codeSnippetId f \<in> set (map cs_id ?owned)) (feedbacks d)))
        = map (populate d) (filter (\<lambda>f. fb_codeSnippetId f = cs_id s) (feedbacks d))"
    if "s \<in> set ?owned" for s
    using that by (intro group_of_owned) simp
  then show ?thesis
    unfolding api_code_my_submissions_handler_def Let_def by simp
qed

text \<open>
  C5. \<open>GET /api/code/my-submissions\<close> returns the stored snippets of the owner, each as
  often as it is stored (once, ids being unique), and no other; each snippet is paired
  with exactly the stored feedback entries that carry its id, in stored order, their
  reviewer populated; a snippet without feedback is paired with the empty list.
\<close>

theorem listOwnWithFeedback_join:
  "\<exists>res. api_code_my_submissions_handler u d = Json 200 res
     \<and> map fst res = filter (\<lambda>s. cs_userId s = pu_id u) (codesnippets d)
     \<and> (\<forall>s \<in> set (codesnippets d). cs_userId s = pu_id u \<longrightarrow>
           count_list (map fst res) s = count_list (codesnippets d) s)
     \<and> (distinct (map cs_id (codesnippets d)) \<longrightarrow> distinct (map (cs_id \<circ> fst) res))
     \<and> (\<forall>(s, fs) \<in> set res.
           fs = map (populate d) (filter (\<lambda>f. fb_codeSnippetId f = cs_id s) (feedbacks d))
         \<and> ((\<forall>f \<in> set (feedbacks d). fb_codeSnippetId f \<noteq> cs_id s) \<longrightarrow> fs = []))"
proof -
  let ?owned = "filter (\<lambda>s. cs_userId s = pu_id u) (codesnippets d)"
  let ?res = "map (\<lambda>s. (s, map (populate d)
                 (filter (\<lambda>f. fb_codeSnippetId f = cs_id s) (feedbacks d)))) ?owned"
  have fst: "map fst ?res = ?owned" by (simp add: o_def)
  have cnt: "\<forall>s \<in> set (codesnippets d). cs_userId s = pu_id u \<longrightarrow>
           count_list (map fst ?res) s = count_list (codesnippets d) s"
    unfolding fst by (simp add: count_list_filter_kept)
  have dist: "distinct (map cs_id (codesnippets d)) \<longrightarrow> distinct (map (cs_id \<circ> fst) ?res)"
    by (simp add: o_def distinct_map_filter)
  have grp: "\<forall>(s, fs) \<in> set ?res.
           fs = map (populate d) (filter (\<lambda>f. fb_codeSnippetId f = cs_id s) (feedbacks d))
         \<and> ((\<forall>f \<in> set (feedbacks d). fb_codeSnippetId f \<noteq> cs_id s) \<longrightarrow> fs = [])"
    by (auto simp: filter_empty_conv)
  show ?thesis
    using my_submissions_eq[of u d] fst cnt dist grp by blast
qed

theorem listOwnWithFeedback_join_witness:
  "api_code_my_submissions_handler (public alice) db2 =
     Json 200
       [(snippet1, [\<lparr>pf_id = ''f1'', pf_codeSnippetId = sid1, pf_reviewerId = Some (''b'', ''b@x''),
                     pf_feedbackText = ''looks fine'', pf_createdAt = 4000\<rparr>]),
        (snippet3, [])]
   \<and> codesnippets db2 = [snippet1, snippet2, snippet3]
   \<and> cs_userId snippet1 = pu_id (public alice) \<and> cs_userId snippet3 = pu_id (public alice)
   \<and> cs_userId snippet2 \<noteq> pu_id (public alice)
   \<and> distinct (map cs_id (codesnippets db2))
   \<and> feedbacks db2 = [feedback1] \<and> fb_codeSnippetId feedback1 \<noteq> cs_id snippet3"
  using listOwnWithFeedback_join [of "public alice" db2]
  by (simp add: example_defs public_def api_code_my_submissions_handler_def populate_def
      User_findById_def Let_def)

text \<open>
  C6, as amended. \<open>GET /api/code/my-submissions\<close> returns the owner's snippets in the
  order in which they are stored, so by creation date, earliest first, whenever the
  store is in that order. The router's \<open>GET /mine\<close> returns the owner's documents
  sorted by descending creation date, newest first.
\<close>

theorem listOwn_order:
  "(\<exists>res. api_code_my_submissions_handler u d = Json 200 res
       \<and> map fst res = filter (\<lambda>s. cs_userId s = pu_id u) (codesnippets d)
       \<and> (sorted (map cs_createdAt (codesnippets d)) \<longrightarrow>
            sorted (map cs_createdAt (map fst res))))
   \<and> (\<exists>cs. router_mine uid d = Json 200 cs
       \<and> mset cs = mset (filter (\<lambda>c. cd_user c = uid) (codes d))
       \<and> sorted (rev (map cd_createdAt cs)))"
proof (intro conjI)
  let ?owned = "filter (\<lambda>s. cs_userId s = pu_id u) (codesnippets d)"
  let ?res = "map (\<lambda>s. (s, map (populate d)
                 (filter (\<lambda>f. fb_codeSnippetId f = cs_id s) (feedbacks d)))) ?owned"
  have fst: "map fst ?res = ?owned" by (simp add: o_def)
  have "sorted (map cs_createdAt (codesnippets d)) \<longrightarrow> sorted (map cs_createdAt (map fst ?res))"
    unfolding fst by (simp add: sorted_filter_map)
  with fst show "\<exists>res. api_code_my_submissions_handler u d = Json 200 res
       \<and> map fst res = filter (\<lambda>s. cs_userId s = pu_id u) (codesnippets d)
       \<and> (sorted (map cs_createdAt (codesnippets d)) \<longrightarrow>
            sorted (map cs_createdAt (map fst res)))"
    using my_submissions_eq[of u d] by blast
next
  let ?key = "\<lambda>c. - int (cd_createdAt c)"
  let ?cs = "sort_key ?key (filter (\<lambda>c. cd_user c = uid) (codes d))"
  have "sorted (map ?key ?cs)"
    by (rule sorted_sort_key)
  then have "sorted_wrt (\<lambda>a b. cd_createdAt b \<le> cd_createdAt a) ?cs"
    by (simp add: sorted_map)
  then have "sorted_wrt (\<lambda>a b. b \<le> a) (map cd_createdAt ?cs)"
    by (simp add: sorted_wrt_map)
  then have "sorted (rev (map cd_createdAt ?cs))"
    by (simp add: sorted_wrt_rev)
  then show "\<exists>cs. router_mine uid d = Json 200 cs
       \<and> mset cs = mset (filter (\<lambda>c. cd_user c = uid) (codes d))
       \<and> sorted (rev (map cd_createdAt cs))"
    by (simp add: router_mine_def)
qed

theorem listOwn_order_witness:
  "sorted (map cs_createdAt (codesnippets db2))
   \<and> api_code_my_submissions_handler (public alice) db2 =
       Json 200
         [(snippet1, [\<lparr>pf_id = ''f1'', pf_codeSnippetId = sid1,
                       pf_reviewerId = Some (''b'', ''b@x''),
                       pf_feedbackText = ''looks fine'', pf_createdAt = 4000\<rparr>]),
          (snippet3, [])]
   \<and> cs_createdAt snippet1 \<le> cs_createdAt snippet3
   \<and> router_mine ''a'' db2 = Json 200 [code_late, code_early]"
  using listOwn_order [of "public alice" db2 "''a''"]
  by (simp add: example_defs public_def api_code_my_submissions_handler_def populate_def
      User_findById_def router_mine_def Let_def)

text \<open>The claim as stated fails on the router's \<open>GET /mine\<close>: of two documents stored
  in creation order, the later one comes first.\<close>

theorem listOwn_order_counterexample:
  "codes db_codes = [code_early, code_late]
   \<and> cd_createdAt code_early < cd_createdAt code_late
   \<and> router_mine ''a'' db_codes = Json 200 [code_late, code_early]"
  by (simp add: example_defs router_mine_def)

section \<open>Tokens\<close>

lemma find_id_of_member:
  "u \<in> set xs \<Longrightarrow> \<exists>v. find (\<lambda>w. user_id w = user_id u) xs = Some v \<and> user_id v = user_id u"
  by (induction xs) auto

text \<open>The tokens that the handlers issue: signed with \<open>JWT_SECRET\<close> for a stored user,
  with \<open>expiresIn: '1h'\<close>, at the clock of the request.\<close>

lemma login_issues:
  "api_auth_login dp now0 body d = Json 200 (tok, pu) \<Longrightarrow>
     \<exists>usr \<in> set (users d). tok = jwt_sign (user_id usr) (JWT_SECRET dp) one_hour (clock_of now0)
        \<and> pu = public usr"
  by (auto simp: api_auth_login_def User_findOne_def Let_def split: if_splits option.splits
      dest!: find_SomeD)

lemma register_issues:
  "api_auth_register dp now0 fresh body d = (Json 201 (tok, pu), d') \<Longrightarrow>
     \<exists>usr \<in> set (users d'). tok = jwt_sign (user_id usr) (JWT_SECRET dp) one_hour (clock_of now0)
        \<and> pu = public usr"
  by (auto simp: api_auth_register_def User_create_def Let_def split: if_splits option.splits)

lemma authenticate_issued:
  assumes "usr \<in> set (users d)" and "clock_of now < clock_of now0 + 3600"
  shows "\<exists>v. (authenticate dp now
                (Bearer (jwt_sign (user_id usr) (JWT_SECRET dp) one_hour (clock_of now0))) d
                :: 'a reply + user_public) = Inr v
             \<and> pu_id v = user_id usr"
  using find_id_of_member[OF assms(1)] assms(2)
  by (auto simp: authenticate_def jwt_sign_def one_hour_def User_findById_def public_def)

text \<open>
  C7. A token issued for an identity with \<open>expiresIn: '1h'\<close> carries as expiry the
  instant of issuance plus 3600 seconds. Verified under the same secret, it yields the
  identity while the clock is before that expiry, and fails as expired once the clock is
  at or past it. Through \<open>authenticate\<close>, the token issued for a stored user resolves
  to a user with that id before the expiry, and is answered 401 \<open>Token expired\<close> from
  the expiry on.
\<close>

theorem token_issue_verify:
  "(t < t0 + 3600 \<longrightarrow> jwt_verify (jwt_sign ident secret one_hour t0) secret t = Inr ident)
   \<and> (t0 + 3600 \<le> t \<longrightarrow>
        jwt_verify (jwt_sign ident secret one_hour t0) secret t = Inl TokenExpiredError)
   \<and> token_iat (jwt_sign ident secret one_hour t0) = Some t0
   \<and> token_exp (jwt_sign ident secret one_hour t0) = Some (t0 + 3600)
   \<and> (usr \<in> set (users d) \<longrightarrow>
        (clock_of now < clock_of now0 + 3600 \<longrightarrow>
           (\<exists>v. (authenticate dp now
                   (Bearer (jwt_sign (user_id usr) (JWT_SECRET dp) one_hour (clock_of now0))) d
                   :: unit reply + user_public) = Inr v
                \<and> pu_id v = user_id usr))
      \<and> (clock_of now0 + 3600 \<le> clock_of now \<longrightarrow>
           (authenticate dp now
              (Bearer (jwt_sign (user_id usr) (JWT_SECRET dp) one_hour (clock_of now0))) d
              :: unit reply + user_public) = Inl (Message 401 ''Token expired'')))"
  using authenticate_issued[of usr d now now0 dp]
  by (auto simp: jwt_sign_def one_hour_def authenticate_def)

theorem token_issue_verify_witness:
  "(3600::nat) < 1 + 3600
   \<and> jwt_verify (jwt_sign ''a'' ''secret'' one_hour 1) ''secret'' 3600 = Inr ''a''
   \<and> (1::nat) + 3600 \<le> 3601
   \<and> jwt_verify (jwt_sign ''a'' ''secret'' one_hour 1) ''secret'' 3601 = Inl TokenExpiredError
   \<and> alice \<in> set (users db1)
   \<and> clock_of 3600999 < clock_of 1000 + 3600
   \<and> (authenticate dp0 3600999
        (Bearer (jwt_sign (user_id alice) (JWT_SECRET dp0) one_hour (clock_of 1000))) db1
        :: unit reply + user_public) = Inr (public alice)
   \<and> clock_of 1000 + 3600 \<le> clock_of 3601000
   \<and> (authenticate dp0 3601000
        (Bearer (jwt_sign (user_id alice) (JWT_SECRET dp0) one_hour (clock_of 1000))) db1
        :: unit reply + user_public) = Inl (Message 401 ''Token expired'')"
  using token_issue_verify [where t = 3600 and ?t0.0 = 1 and ident = "''a''"
      and secret = "''secret''" and usr = alice and d = db1 and now = 3600999 and ?now0.0 = 1000
      and dp = dp0]
    token_issue_verify [where t = 3601 and ?t0.0 = 1 and ident = "''a''"
      and secret = "''secret''" and usr = alice and d = db1 and now = 3601000 and ?now0.0 = 1000
      and dp = dp0]
  by (simp add: example_defs handler_defs)

section \<open>Login\<close>

text \<open>
  C8. Take a store in which the email is registered and the password does not match
  the stored hash, and a store in which the email is not registered. Login answers both
  with the same response, hence the same error kind; when email and password are both
  supplied, that response is 401 \<open>Invalid credentials\<close>, of kind Unauthorized. (When a
  field is absent or empty, both runs answer 400.)
\<close>

theorem login_no_existence_leak:
  assumes "User_findOne (str (b_email body)) d1 = Some usr"
      and "\<not> bcrypt_compare dp (str (b_password body)) (user_password usr)"
      and "User_findOne (str (b_email body)) d2 = None"
  shows "api_auth_login dp now body d1 = api_auth_login dp now' body d2
       \<and> error_kind (api_auth_login dp now body d1) = error_kind (api_auth_login dp now' body d2)
       \<and> (\<not> falsy (b_email body) \<and> \<not> falsy (b_password body) \<longrightarrow>
            api_auth_login dp now body d1 = Message 401 ''Invalid credentials''
          \<and> error_kind (api_auth_login dp now body d1) = Some Unauthorized)"
  using assms by (auto simp: api_auth_login_def Let_def error_kind_def)

theorem login_no_existence_leak_witness:
  "User_findOne ''a@x'' db1 = Some alice
   \<and> \<not> bcrypt_compare dp0 ''nope'' (user_password alice)
   \<and> User_findOne ''a@x'' empty_db = None
   \<and> \<not> falsy (Some ''a@x'') \<and> \<not> falsy (Some ''nope'')
   \<and> api_auth_login dp0 5000 \<lparr>b_email = Some ''a@x'', b_password = Some ''nope''\<rparr> db1 =
       Message 401 ''Invalid credentials''
   \<and> api_auth_login dp0 6000 \<lparr>b_email = Some ''a@x'', b_password = Some ''nope''\<rparr> empty_db =
       Message 401 ''Invalid credentials''
   \<and> error_kind (api_auth_login dp0 5000
         \<lparr>b_email = Some ''a@x'', b_password = Some ''nope''\<rparr> db1) = Some Unauthorized"
proof -
  let ?body = "\<lparr>b_email = Some ''a@x'', b_password = Some ''nope''\<rparr>"
  have h1: "User_findOne (str (b_email ?body)) db1 = Some alice"
    by (simp add: example_defs User_findOne_def str_def)
  have h2: "\<not> bcrypt_compare dp0 (str (b_password ?body)) (user_password alice)"
    by (simp add: example_defs str_def)
  have h3: "User_findOne (str (b_email ?body)) empty_db = None"
    by (simp add: empty_db_def User_findOne_def)
  show ?thesis
    using h1 h2 h3 login_no_existence_leak [OF h1 h2 h3, where now = 5000 and now' = 6000]
    by (simp add: example_defs handler_defs error_kind_def)
qed

section \<open>Snippet submission\<close>

lemma code_handler_rejects_empty:
  "falsy (b_code body) \<Longrightarrow>
     api_code_handler u now fresh body d = (Message 400 ''Code is required'', d)
     \<and> error_kind (fst (api_code_handler u now fresh body d)) = Some ValidationError"
  by (simp add: api_code_handler_def error_kind_def)

lemma code_handler_nonempty:
  "\<forall>s \<in> set (codesnippets d). cs_code s \<noteq> [] \<Longrightarrow>
     \<forall>s \<in> set (codesnippets (snd (api_code_handler u now fresh body d))). cs_code s \<noteq> []"
  by (auto simp: api_code_handler_def CodeSnippet_create_def Let_def falsy_def str_def
      split: option.splits)

lemma apply_event_nonempty:
  assumes "\<forall>s \<in> set (codesnippets d). cs_code s \<noteq> []"
  shows "\<forall>s \<in> set (codesnippets (apply_event dp d ev)). cs_code s \<noteq> []"
proof (cases ev)
  case (PostCode now fresh h body)
  with assms code_handler_nonempty[OF assms] show ?thesis
    by (simp add: api_code_def split: sum.splits)
next
  case (PostFeedback now fresh h body)
  with assms show ?thesis
    by (auto simp: api_feedback_def api_feedback_handler_def Feedback_create_def Let_def
        split: sum.splits option.splits mongoose_error.splits)
qed (use assms in \<open>simp_all add: register_keeps router_post_keeps\<close>)

lemma foldl_nonempty:
  "\<forall>s \<in> set (codesnippets d). cs_code s \<noteq> [] \<Longrightarrow>
     \<forall>s \<in> set (codesnippets (foldl (apply_event dp) d evs)). cs_code s \<noteq> []"
proof (induction evs arbitrary: d)
  case Nil
  then show ?case by simp
next
  case (Cons ev evs)
  from Cons.prems have "\<forall>s \<in> set (codesnippets (apply_event dp d ev)). cs_code s \<noteq> []"
    by (rule apply_event_nonempty)
  then show ?case
    using Cons.IH by simp
qed

text \<open>In server.js the claim holds: absent or empty code is refused with a 400, and
  the snippet store never holds a snippet with empty code.\<close>

lemma run_codesnippets_nonempty:
  "\<forall>s \<in> set (codesnippets (run dp evs)). cs_code s \<noteq> []"
  unfolding run_def by (rule foldl_nonempty) (simp add: empty_db_def)

text \<open>
  C9. A submission whose code is absent or empty must fail with a validation error and
  store nothing. The router's \<open>POST /\<close> does not test the field: sent an empty code, it
  stores a document with that empty code and answers 201 \<open>Code submitted\<close>.
\<close>

theorem router_post_accepts_empty_code:
  "router_post ''a'' 1000 ''c1'' \<lparr>b_code = Some '''', b_language = None\<rparr> empty_db =
     (Message 201 ''Code submitted'',
      \<lparr>users = [], codesnippets = [], feedbacks = [],
       codes = [\<lparr>cd_id = ''c1'', cd_user = ''a'', cd_code = Some '''', cd_createdAt = 1000,
                 cd_feedbacks = []\<rparr>]\<rparr>)"
  by (simp add: router_post_def Code_save_def empty_db_def)

text \<open>
  C10. A submission accepted by \<open>POST /api/code\<close> stores and returns a snippet whose
  language is \<open>javascript\<close> when the language field is absent or empty, and the given
  tag when it is a non-empty string.
\<close>

theorem submitSnippet_language_default:
  assumes "\<not> falsy (b_code body)" and "fresh \<notin> set (map cs_id (codesnippets d))"
  shows "\<exists>snippet. api_code_handler u now fresh body d =
            (Json 201 snippet, d\<lparr>codesnippets := codesnippets d @ [snippet]\<rparr>)
         \<and> (b_language body = None \<or> b_language body = Some [] \<longrightarrow>
              cs_language snippet = ''javascript'')
         \<and> (\<forall>l. b_language body = Some l \<and> l \<noteq> [] \<longrightarrow> cs_language snippet = l)"
  using assms
  by (auto simp: api_code_handler_def CodeSnippet_create_def Let_def falsy_def str_def
      split: option.splits)

theorem submitSnippet_language_default_witness:
  "\<not> falsy (Some ''x = 2'') \<and> ''s4'' \<notin> set (map cs_id (codesnippets db2))
   \<and> fst (api_code_handler (public bob) 8000 ''s4''
        \<lparr>b_code = Some ''x = 2'', b_language = None\<rparr> db2) =
       Json 201 \<lparr>cs_id = ''s4'', cs_code = ''x = 2'', cs_language = ''javascript'',
                 cs_userId = ''b'', cs_createdAt = 8000\<rparr>
   \<and> fst (api_code_handler (public bob) 8000 ''s4''
        \<lparr>b_code = Some ''x = 2'', b_language = Some ''''\<rparr> db2) =
       Json 201 \<lparr>cs_id = ''s4'', cs_code = ''x = 2'', cs_language = ''javascript'',
                 cs_userId = ''b'', cs_createdAt = 8000\<rparr>
   \<and> fst (api_code_handler (public bob) 8000 ''s4''
        \<lparr>b_code = Some ''x = 2'', b_language = Some ''python''\<rparr> db2) =
       Json 201 \<lparr>cs_id = ''s4'', cs_code = ''x = 2'', cs_language = ''python'',
                 cs_userId = ''b'', cs_createdAt = 8000\<rparr>"
proof -
  have h1: "\<not> falsy (b_code \<lparr>b_code = Some ''x = 2'', b_language = l\<rparr>)" for l
    by (simp add: falsy_def)
  have h2: "''s4'' \<notin> set (map cs_id (codesnippets db2))"
    by (simp add: example_defs)
  show ?thesis
    using h2
      submitSnippet_language_default [OF h1 [of None] h2, where u = "public bob" and now = 8000]
      submitSnippet_language_default
        [OF h1 [of "Some ''''"] h2, where u = "public bob" and now = 8000]
      submitSnippet_language_default
        [OF h1 [of "Some ''python''"] h2, where u = "public bob" and now = 8000]
    by (simp add: example_defs handler_defs)
qed

end
